theory Spec2Isabelle
  imports Complex_Main "HOL-Library.AList" "HOL-Library.Sublist"
begin

section \<open>Python values and the operations the client applies to them\<close>

text \<open>
  The client of \<^verbatim>\<open>wells_api_client.py\<close> is dynamically typed: what it fetches is
  whatever the decoder produced. Values are therefore modelled as one datatype, and
  every Python operation of the source that can raise returns a sum, \<open>Inl\<close> being the
  exception.
\<close>

text \<open>
  A Python float, as far as the client looks at it: it is only ever compared with zero.
  \<open>Fin r\<close> is a finite double of value \<open>r\<close>.
\<close>

datatype pyfloat = Fin real | PosInf | NegInf | NaN

text \<open>An \<^verbatim>\<open>xml.etree.ElementTree.Element\<close>: tag, attributes, children.\<close>

datatype xml = Element string "(string \<times> string) list" "xml list"

text \<open>
  A dict is an association list in insertion order; \<open>map_of\<close> reads it and
  \<open>AList.update\<close> is item assignment (in place for a key that is there, appended
  otherwise).
\<close>

datatype pyval =
    PNone
  | PBool bool
  | PInt int
  | PFloat pyfloat
  | PStr string
  | PList "pyval list"
  | PDict "(string \<times> pyval) list"
  | PElem xml

datatype exn =
    TypeError
  | AttributeError
  | KeyError
  | ValueError
  | OverflowError
  | ParseError string

text \<open>
  Library functions of the Python runtime whose result depends on Unicode tables or on
  floating-point rounding. They are parameters of the model: \<open>str_lower\<close> is
  \<^verbatim>\<open>str.lower\<close>, and \<open>float_str s\<close> is \<^verbatim>\<open>float(s)\<close> for a string, \<open>None\<close> when it
  raises \<^verbatim>\<open>ValueError\<close>.
\<close>

record runtime =
  str_lower :: "string \<Rightarrow> string"
  float_str :: "string \<Rightarrow> pyfloat option"

text \<open>\<^verbatim>\<open>x > 0\<close> and \<^verbatim>\<open>x == 0\<close> on a float.\<close>

fun gt_zero :: "pyfloat \<Rightarrow> bool" where
  "gt_zero (Fin r) = (0 < r)"
| "gt_zero PosInf = True"
| "gt_zero NegInf = False"
| "gt_zero NaN = False"

fun eq_zero :: "pyfloat \<Rightarrow> bool" where
  "eq_zero (Fin r) = (r = 0)"
| "eq_zero PosInf = False"
| "eq_zero NegInf = False"
| "eq_zero NaN = False"

text \<open>
  \<^verbatim>\<open>float(n)\<close> for an int raises \<^verbatim>\<open>OverflowError\<close> when \<open>n\<close> rounds to a magnitude
  of \<open>2 ^ 1024\<close> or more. The value kept is the integer itself: rounding changes neither
  its sign nor whether it is zero.
\<close>

definition float_int :: "int \<Rightarrow> exn + pyfloat" where
  "float_int n =
     (if \<bar>n\<bar> < 2 ^ 1024 - 2 ^ 970 then Inr (Fin (of_int n)) else Inl OverflowError)"

text \<open>The builtin \<^verbatim>\<open>float(v)\<close>.\<close>

fun py_float :: "runtime \<Rightarrow> pyval \<Rightarrow> exn + pyfloat" where
  "py_float rt (PStr s) = (case float_str rt s of None \<Rightarrow> Inl ValueError | Some f \<Rightarrow> Inr f)"
| "py_float rt (PInt n) = float_int n"
| "py_float rt (PFloat f) = Inr f"
| "py_float rt (PBool b) = Inr (Fin (if b then 1 else 0))"
| "py_float rt PNone = Inl TypeError"
| "py_float rt (PList xs) = Inl TypeError"
| "py_float rt (PDict d) = Inl TypeError"
| "py_float rt (PElem e) = Inl TypeError"

text \<open>
  \<^verbatim>\<open>key in v\<close> for a string \<open>key\<close>: key membership in a dict, element membership in
  a list, substring test in a string, child membership in an element (a string never
  equals a child element), \<^verbatim>\<open>TypeError\<close> on a value that is not a container.
\<close>

fun py_contains :: "string \<Rightarrow> pyval \<Rightarrow> exn + bool" where
  "py_contains k (PDict d) = Inr (k \<in> set (map fst d))"
| "py_contains k (PList xs) = Inr (PStr k \<in> set xs)"
| "py_contains k (PStr s) = Inr (sublist k s)"
| "py_contains k (PElem e) = Inr False"
| "py_contains k PNone = Inl TypeError"
| "py_contains k (PBool b) = Inl TypeError"
| "py_contains k (PInt n) = Inl TypeError"
| "py_contains k (PFloat f) = Inl TypeError"

text \<open>
  \<^verbatim>\<open>v.get(key, default)\<close>: a dict looks the key up, an element looks the attribute
  up, any other value has no \<^verbatim>\<open>get\<close>.
\<close>

fun py_get :: "pyval \<Rightarrow> string \<Rightarrow> pyval \<Rightarrow> exn + pyval" where
  "py_get (PDict d) k dflt = Inr (case map_of d k of None \<Rightarrow> dflt | Some v \<Rightarrow> v)"
| "py_get (PElem (Element tag attrib children)) k dflt =
     Inr (case map_of attrib k of None \<Rightarrow> dflt | Some a \<Rightarrow> PStr a)"
| "py_get PNone k dflt = Inl AttributeError"
| "py_get (PBool b) k dflt = Inl AttributeError"
| "py_get (PInt n) k dflt = Inl AttributeError"
| "py_get (PFloat f) k dflt = Inl AttributeError"
| "py_get (PStr s) k dflt = Inl AttributeError"
| "py_get (PList xs) k dflt = Inl AttributeError"

text \<open>\<^verbatim>\<open>v[key]\<close> for a string \<open>key\<close>.\<close>

fun py_getitem :: "pyval \<Rightarrow> string \<Rightarrow> exn + pyval" where
  "py_getitem (PDict d) k = (case map_of d k of None \<Rightarrow> Inl KeyError | Some v \<Rightarrow> Inr v)"
| "py_getitem v k = Inl TypeError"

text \<open>\<^verbatim>\<open>v[key] = x\<close> for a string \<open>key\<close>.\<close>

fun py_setitem :: "pyval \<Rightarrow> string \<Rightarrow> pyval \<Rightarrow> exn + pyval" where
  "py_setitem (PDict d) k x = Inr (PDict (AList.update k x d))"
| "py_setitem v k x = Inl TypeError"

text \<open>Truth value of a Python object, as \<^verbatim>\<open>not v\<close> and \<^verbatim>\<open>if v:\<close> take it.\<close>

fun truthy :: "pyval \<Rightarrow> bool" where
  "truthy PNone = False"
| "truthy (PBool b) = b"
| "truthy (PInt n) = (n \<noteq> 0)"
| "truthy (PFloat f) = (\<not> eq_zero f)"
| "truthy (PStr s) = (s \<noteq> [])"
| "truthy (PList xs) = (xs \<noteq> [])"
| "truthy (PDict d) = (d \<noteq> [])"
| "truthy (PElem (Element tag attrib children)) = (children \<noteq> [])"

text \<open>
  Iteration, as \<^verbatim>\<open>list.extend\<close> and a comprehension's \<^verbatim>\<open>for\<close> do it: the elements of
  a list, the characters of a string, the keys of a dict, the children of an element.
\<close>

fun py_iter :: "pyval \<Rightarrow> exn + pyval list" where
  "py_iter (PList xs) = Inr xs"
| "py_iter (PStr s) = Inr (map (\<lambda>c. PStr [c]) s)"
| "py_iter (PDict d) = Inr (map (\<lambda>kv. PStr (fst kv)) d)"
| "py_iter (PElem (Element tag attrib children)) = Inr (map PElem children)"
| "py_iter PNone = Inl TypeError"
| "py_iter (PBool b) = Inl TypeError"
| "py_iter (PInt n) = Inl TypeError"
| "py_iter (PFloat f) = Inl TypeError"

text \<open>The builtin \<^verbatim>\<open>len\<close>.\<close>

fun py_len :: "pyval \<Rightarrow> exn + nat" where
  "py_len (PList xs) = Inr (length xs)"
| "py_len (PStr s) = Inr (length s)"
| "py_len (PDict d) = Inr (length d)"
| "py_len (PElem (Element tag attrib children)) = Inr (length children)"
| "py_len PNone = Inl TypeError"
| "py_len (PBool b) = Inl TypeError"
| "py_len (PInt n) = Inl TypeError"
| "py_len (PFloat f) = Inl TypeError"

section \<open>The network and the decoders\<close>

text \<open>
  What \<^verbatim>\<open>requests.get\<close> is called with: the URL and the query parameters, in the
  order the source builds them.
\<close>

record request =
  url :: string
  params :: "(string \<times> pyval) list"

text \<open>
  A response that passed \<^verbatim>\<open>raise_for_status\<close>: its body text, what
  \<^verbatim>\<open>response.json()\<close> yields on it and what \<^verbatim>\<open>ET.fromstring(response.text)\<close> yields on
  it, \<open>Inl\<close> carrying the parser's message when the body does not decode. The two
  parsers are library code.
\<close>

record response =
  body_text :: string
  json :: "string + pyval"
  xml_tree :: "string + xml"

text \<open>
  The outcome of \<^verbatim>\<open>requests.get\<close> followed by \<^verbatim>\<open>raise_for_status\<close>: a
  \<^verbatim>\<open>RequestException\<close> with its message (timeout, network failure, HTTP error
  status) or a response.
\<close>

datatype http_result = RequestException string | Response response

text \<open>What a call does besides returning: the requests it sends and the lines it prints.\<close>

datatype event =
    HttpGet request
  | PrintJSONError string
      \<comment> \<open>\<^verbatim>\<open>print(f"Error parsing JSON response: {e}")\<close>\<close>
  | PrintResponseText string
      \<comment> \<open>\<^verbatim>\<open>print(f"Response text: {response.text[:200]}...")\<close>, carrying the prefix\<close>
  | PrintRequestError string
      \<comment> \<open>\<^verbatim>\<open>print(f"Error making API request: {e}")\<close>\<close>
  | PrintErrorAtOffset int pyval
      \<comment> \<open>\<^verbatim>\<open>print(f"Error at offset {offset}: {response['error']}")\<close>\<close>

section \<open>WellsAPIClient\<close>

record client =
  api_key :: string
  base_url :: string

text \<open>\<^verbatim>\<open>WellsAPIClient.__init__\<close>.\<close>

definition init_client :: "string \<Rightarrow> client" where
  "init_client key =
     \<lparr>api_key = key,
      base_url = ''https://api.data.gov.in/resource/0b344af7-b389-4e37-bf49-b4f1e59bbc49''\<rparr>"

text \<open>
  The parameters of a request: the four fixed entries, then one entry
  \<^verbatim>\<open>filters[key]\<close> per filter when the filters are given and not empty.
\<close>

definition build_params ::
  "client \<Rightarrow> string \<Rightarrow> int \<Rightarrow> int \<Rightarrow> (string \<times> pyval) list option \<Rightarrow> (string \<times> pyval) list" where
  "build_params c format_type offset limit filters =
     (let base = [(''api-key'', PStr (api_key c)), (''format'', PStr format_type),
                  (''offset'', PInt offset), (''limit'', PInt limit)]
      in case filters of
           None \<Rightarrow> base
         | Some fs \<Rightarrow>
             (if fs \<noteq> []
              then fold (\<lambda>kv ps. AList.update (''filters['' @ fst kv @ '']'') (snd kv) ps) fs base
              else base))"

definition build_request ::
  "client \<Rightarrow> string \<Rightarrow> int \<Rightarrow> int \<Rightarrow> (string \<times> pyval) list option \<Rightarrow> request" where
  "build_request c format_type offset limit filters =
     \<lparr>url = base_url c, params = build_params c format_type offset limit filters\<rparr>"

text \<open>
  \<^verbatim>\<open>get_wells_data\<close>. The argument \<open>src\<close> is the data source at the moment of the call:
  what it answers to each request. The result is the returned value or the exception
  that leaves the method, with the events of the call.
\<close>

definition get_wells_data ::
  "client \<Rightarrow> (request \<Rightarrow> http_result) \<Rightarrow> string \<Rightarrow> int \<Rightarrow> int \<Rightarrow>
   (string \<times> pyval) list option \<Rightarrow> (exn + pyval) \<times> event list" where
  "get_wells_data c src format_type offset limit filters =
     (let req = build_request c format_type offset limit filters in
      case src req of
        RequestException msg \<Rightarrow>
          (Inr (PDict [(''error'', PStr msg)]), [HttpGet req, PrintRequestError msg])
      | Response r \<Rightarrow>
          (if format_type = ''json'' then
             (case json r of
                Inr v \<Rightarrow> (Inr v, [HttpGet req])
              | Inl msg \<Rightarrow>
                  (Inr (PDict [(''error'', PStr (''JSON decode error: '' @ msg))]),
                   [HttpGet req, PrintJSONError msg,
                    PrintResponseText (take 200 (body_text r))]))
           else if format_type = ''xml'' then
             (case xml_tree r of
                Inr e \<Rightarrow> (Inr (PElem e), [HttpGet req])
              | Inl msg \<Rightarrow> (Inl (ParseError msg), [HttpGet req]))
           else (Inr (PStr (body_text r)), [HttpGet req])))"

text \<open>Sequencing of two steps that may raise.\<close>

definition and_then :: "exn + 'a \<Rightarrow> ('a \<Rightarrow> exn + 'b) \<Rightarrow> exn + 'b" where
  "and_then m f = (case m of Inl e \<Rightarrow> Inl e | Inr x \<Rightarrow> f x)"

subsection \<open>Pagination\<close>

text \<open>
  How one pass through the body of \<^verbatim>\<open>while True\<close> ends: at a \<^verbatim>\<open>break\<close>, at the
  bottom of the body (the loop goes round again), or with an exception.
\<close>

datatype ctl = Break | Continue | Raise exn

text \<open>
  The body of the loop of \<^verbatim>\<open>get_all_wells_data\<close>, from the values of \<^verbatim>\<open>offset\<close> and
  \<^verbatim>\<open>all_records\<close> on entry to their values on exit.
\<close>

definition loop_body ::
  "client \<Rightarrow> (request \<Rightarrow> http_result) \<Rightarrow> string \<Rightarrow> int \<Rightarrow> int \<Rightarrow> pyval list \<Rightarrow>
   ctl \<times> int \<times> pyval list \<times> event list" where
  "loop_body c src format_type batch_size offset all_records =
     (case get_wells_data c src format_type offset batch_size None of
        (Inl e, ev) \<Rightarrow> (Raise e, offset, all_records, ev)
      | (Inr resp, ev) \<Rightarrow>
          (case py_contains ''error'' resp of
             Inl e \<Rightarrow> (Raise e, offset, all_records, ev)
           | Inr True \<Rightarrow>
               (case py_getitem resp ''error'' of
                  Inl e \<Rightarrow> (Raise e, offset, all_records, ev)
                | Inr v \<Rightarrow> (Break, offset, all_records, ev @ [PrintErrorAtOffset offset v]))
           | Inr False \<Rightarrow>
               (if format_type = ''json'' then
                  (case and_then (py_get resp ''result'' (PDict []))
                          (\<lambda>res. py_get res ''records'' (PList [])) of
                     Inl e \<Rightarrow> (Raise e, offset, all_records, ev)
                   | Inr records \<Rightarrow>
                       (if \<not> truthy records then (Break, offset, all_records, ev)
                        else
                          (case py_iter records of
                             Inl e \<Rightarrow> (Raise e, offset, all_records, ev)
                           | Inr items \<Rightarrow>
                               (case py_len records of
                                  Inl e \<Rightarrow>
                                    (Raise e, offset + batch_size, all_records @ items, ev)
                                | Inr n \<Rightarrow>
                                    (if int n < batch_size
                                     then (Break, offset + batch_size, all_records @ items, ev)
                                     else (Continue, offset + batch_size,
                                           all_records @ items, ev))))))
                else (Break, offset, all_records @ [resp], ev))))"

text \<open>
  One entry per pass through the loop, kept beside the program's own state: the offset
  the pass requested, how many records had been retrieved when it started, and how many
  it appended.
\<close>

record iteration =
  at_offset :: int
  fetched_before :: nat
  page_size :: nat

text \<open>
  A run of the loop: \<open>outcome\<close> is \<open>None\<close> while the loop has not ended, otherwise the
  returned list or the exception.
\<close>

record loop_run =
  outcome :: "(exn + pyval list) option"
  trace :: "event list"
  iterations :: "iteration list"

text \<open>
  The loop \<^verbatim>\<open>while True\<close> can run forever (a source that always answers with a full
  page), so it takes the number of passes it may make. \<open>src k\<close> is the source as it
  answers during pass \<open>k\<close>.
\<close>

fun fetch_loop ::
  "nat \<Rightarrow> client \<Rightarrow> (nat \<Rightarrow> request \<Rightarrow> http_result) \<Rightarrow> string \<Rightarrow> int \<Rightarrow>
   nat \<Rightarrow> int \<Rightarrow> pyval list \<Rightarrow> event list \<Rightarrow> iteration list \<Rightarrow> loop_run" where
  "fetch_loop 0 c src format_type batch_size k offset all_records ev its =
     \<lparr>outcome = None, trace = ev, iterations = its\<rparr>"
| "fetch_loop (Suc fuel) c src format_type batch_size k offset all_records ev its =
     (case loop_body c (src k) format_type batch_size offset all_records of
        (ct, offset', all_records', ev') \<Rightarrow>
          (let its' = its @ [\<lparr>at_offset = offset, fetched_before = length all_records,
                              page_size = length all_records' - length all_records\<rparr>]
           in case ct of
                Raise e \<Rightarrow> \<lparr>outcome = Some (Inl e), trace = ev @ ev', iterations = its'\<rparr>
              | Break \<Rightarrow>
                  \<lparr>outcome = Some (Inr all_records'), trace = ev @ ev', iterations = its'\<rparr>
              | Continue \<Rightarrow>
                  fetch_loop fuel c src format_type batch_size (Suc k) offset' all_records'
                    (ev @ ev') its'))"

text \<open>\<^verbatim>\<open>get_all_wells_data\<close>: \<^verbatim>\<open>all_records = []\<close>, \<^verbatim>\<open>offset = 0\<close>, then the loop.\<close>

definition get_all_wells_data ::
  "nat \<Rightarrow> client \<Rightarrow> (nat \<Rightarrow> request \<Rightarrow> http_result) \<Rightarrow> string \<Rightarrow> int \<Rightarrow> loop_run" where
  "get_all_wells_data fuel c src format_type batch_size =
     fetch_loop fuel c src format_type batch_size 0 0 [] [] []"

subsection \<open>Filters\<close>

text \<open>
  The coercion of the two filters, \<^verbatim>\<open>float(record.get(field, 0))\<close>.
\<close>

definition coerce :: "runtime \<Rightarrow> pyval \<Rightarrow> string \<Rightarrow> exn + pyfloat" where
  "coerce rt record field = and_then (py_get record field (PInt 0)) (py_float rt)"

text \<open>
  The comprehension \<^verbatim>\<open>[record for record in records if test(float(record.get(field, 0)))]\<close>
  over the items of \<^verbatim>\<open>records\<close>: the first record whose coercion raises ends it.
\<close>

fun keep_records ::
  "(pyfloat \<Rightarrow> bool) \<Rightarrow> runtime \<Rightarrow> string \<Rightarrow> pyval list \<Rightarrow> exn + pyval list" where
  "keep_records test rt field [] = Inr []"
| "keep_records test rt field (record # rest) =
     (case coerce rt record field of
        Inl e \<Rightarrow> Inl e
      | Inr x \<Rightarrow>
          (case keep_records test rt field rest of
             Inl e \<Rightarrow> Inl e
           | Inr kept \<Rightarrow> Inr (if test x then record # kept else kept)))"

text \<open>
  The JSON branch shared by both filters: read \<^verbatim>\<open>records\<close>, filter, then store the
  filtered list and its length under \<^verbatim>\<open>"records"\<close> and \<^verbatim>\<open>"count"\<close>.
\<close>

definition filter_json ::
  "(pyfloat \<Rightarrow> bool) \<Rightarrow> runtime \<Rightarrow> string \<Rightarrow> pyval \<Rightarrow> exn + pyval" where
  "filter_json test rt field all_data =
     and_then (py_get all_data ''records'' (PList [])) (\<lambda>records.
     and_then (py_iter records) (\<lambda>items.
     and_then (keep_records test rt field items) (\<lambda>filtered_records.
     and_then (py_setitem all_data ''records'' (PList filtered_records)) (\<lambda>d.
       py_setitem d ''count'' (PInt (int (length filtered_records)))))))"

definition state_filters :: "(string \<times> string) list" where
  "state_filters =
     [(''gujarat'', ''gujarat''),
      (''rajasthan'', ''rajasthan''),
      (''assam'', ''assam___arunachal_pradesh''),
      (''tripura'', ''tripura''),
      (''andhra_pradesh'', ''andhra_pradesh''),
      (''tamilnadu'', ''tamilnadu''),
      (''west_bengal'', ''west_bangal__cbm_''),
      (''jharkhand'', ''jharkhand__cbm_''),
      (''madhya_pradesh'', ''madhya_pradesh__cbm_''),
      (''other_states'', ''other_state__up_hp_mp_bihar__punjab_jk_wb_'')]"

text \<open>
  \<^verbatim>\<open>str(list_of_strings)\<close> for keys without quotes or escapes in them, as in
  \<^verbatim>\<open>['gujarat', 'rajasthan']\<close>.
\<close>

fun join_quoted :: "string list \<Rightarrow> string" where
  "join_quoted [] = []"
| "join_quoted [k] = [CHR 0x27] @ k @ [CHR 0x27]"
| "join_quoted (k # ks) = [CHR 0x27] @ k @ [CHR 0x27] @ '', '' @ join_quoted ks"

definition repr_keys :: "string list \<Rightarrow> string" where
  "repr_keys ks = ''['' @ join_quoted ks @ '']''"

text \<open>
  What both filters do with the fetched data: return it as it is when it holds
  \<^verbatim>\<open>"error"\<close> or when the format is not \<^verbatim>\<open>json\<close>, filter it otherwise.
\<close>

definition filter_fetched ::
  "(pyfloat \<Rightarrow> bool) \<Rightarrow> runtime \<Rightarrow> string \<Rightarrow> string \<Rightarrow>
   (exn + pyval) \<times> event list \<Rightarrow> (exn + pyval) \<times> event list" where
  "filter_fetched test rt field format_type fetched =
     (case fetched of
        (Inl e, ev) \<Rightarrow> (Inl e, ev)
      | (Inr all_data, ev) \<Rightarrow>
          (case py_contains ''error'' all_data of
             Inl e \<Rightarrow> (Inl e, ev)
           | Inr True \<Rightarrow> (Inr all_data, ev)
           | Inr False \<Rightarrow>
               (if format_type = ''json''
                then (filter_json test rt field all_data, ev)
                else (Inr all_data, ev))))"

text \<open>\<^verbatim>\<open>filter_by_state\<close>.\<close>

definition filter_by_state ::
  "client \<Rightarrow> runtime \<Rightarrow> (request \<Rightarrow> http_result) \<Rightarrow> string \<Rightarrow> string \<Rightarrow>
   (exn + pyval) \<times> event list" where
  "filter_by_state c rt src state_name format_type =
     (case map_of state_filters (str_lower rt state_name) of
        None \<Rightarrow>
          (Inr (PDict [(''error'',
                  PStr (''Invalid state name. Available states: ''
                        @ repr_keys (map fst state_filters)))]), [])
      | Some state_field \<Rightarrow>
          filter_fetched gt_zero rt state_field format_type
            (get_wells_data c src format_type 0 1000 None))"

text \<open>\<^verbatim>\<open>filter_by_offshore\<close>.\<close>

definition filter_by_offshore ::
  "client \<Rightarrow> runtime \<Rightarrow> (request \<Rightarrow> http_result) \<Rightarrow> bool \<Rightarrow> string \<Rightarrow>
   (exn + pyval) \<times> event list" where
  "filter_by_offshore c rt src offshore format_type =
     filter_fetched (if offshore then gt_zero else eq_zero) rt ''offshore'' format_type
       (get_wells_data c src format_type 0 1000 None)"

text \<open>\<^verbatim>\<open>filter_by_status\<close>: the filter goes to the server, nothing is filtered here.\<close>

definition filter_by_status ::
  "client \<Rightarrow> (request \<Rightarrow> http_result) \<Rightarrow> string \<Rightarrow> string \<Rightarrow> (exn + pyval) \<times> event list" where
  "filter_by_status c src status format_type =
     get_wells_data c src format_type 0 10 (Some [(''status'', PStr status)])"

section \<open>The dashboard's coercion\<close>

text \<open>
  \<^verbatim>\<open>safe_int\<close> of \<^verbatim>\<open>advanced_oil_dashboard.py\<close>: a string is parsed, 0 when that fails;
  any other value is returned as it is.
\<close>

fun safe_int :: "runtime \<Rightarrow> pyval \<Rightarrow> pyval" where
  "safe_int rt (PStr s) = (case float_str rt s of Some f \<Rightarrow> PFloat f | None \<Rightarrow> PInt 0)"
| "safe_int rt v = v"

section \<open>A runtime and sources for worked examples\<close>

text \<open>
  A concrete runtime to run examples on. \<open>ascii_lower\<close> lowers the letters A to Z.
  \<open>digits_float\<close> reads a non-empty string of the digits 0 to 9 as its decimal value
  and rejects every other string; the examples apply it to such strings and to
  \<^verbatim>\<open>"abc"\<close> only.
\<close>

definition ascii_lower :: "string \<Rightarrow> string" where
  "ascii_lower s =
     map (\<lambda>c. let n = (of_char c :: nat) in
               if 65 \<le> n \<and> n \<le> 90 then char_of (n + 32) else c) s"

fun digits_value :: "nat \<Rightarrow> string \<Rightarrow> nat option" where
  "digits_value acc [] = Some acc"
| "digits_value acc (c # cs) =
     (let n = (of_char c :: nat) in
      if 48 \<le> n \<and> n \<le> 57 then digits_value (10 * acc + (n - 48)) cs else None)"

definition digits_float :: "string \<Rightarrow> pyfloat option" where
  "digits_float s =
     (if s = [] then None else map_option (\<lambda>n. Fin (real n)) (digits_value 0 s))"

definition example_runtime :: runtime where
  "example_runtime = \<lparr>str_lower = ascii_lower, float_str = digits_float\<rparr>"

text \<open>
  A source that answers every request with the same JSON value, and one that holds a
  list of records and answers a request with the slice its \<^verbatim>\<open>offset\<close> and \<^verbatim>\<open>limit\<close>
  select, nested under \<^verbatim>\<open>result.records\<close>. The body text, which the client reads only
  when decoding failed, is a parameter.
\<close>

definition json_reply :: "string \<Rightarrow> pyval \<Rightarrow> http_result" where
  "json_reply body v =
     Response \<lparr>body_text = body, json = Inr v,
               xml_tree = Inl ''not well-formed (invalid token): line 1, column 0''\<rparr>"

definition paged_source :: "string \<Rightarrow> pyval list \<Rightarrow> request \<Rightarrow> http_result" where
  "paged_source body records req =
     (case (map_of (params req) ''offset'', map_of (params req) ''limit'') of
        (Some (PInt skip), Some (PInt count)) \<Rightarrow>
          json_reply body
            (PDict [(''result'', PDict [(''records'',
               PList (take (nat count) (drop (nat skip) records)))])])
      | _ \<Rightarrow> RequestException ''400 Client Error'')"

definition default_client :: client where
  "default_client = init_client ''579b464db66ec23bdd000001cdd3946e44ce4aad7209ff7b23ac571b''"

text \<open>
  Sources for the examples below. Each answers every request with one JSON document;
  \<open>oversize_source\<close> answers the first pass of the pagination loop with three records
  and every later pass with none, and \<open>failing_source\<close> answers the first pass from a
  list of records and fails from then on.
\<close>

definition gujarat_reply :: http_result where
  \<open>gujarat_reply =
     json_reply ''{"records": [{"gujarat": "3547"}, {"gujarat": "0"}], "total": 2}''
       (PDict [(''records'', PList [PDict [(''gujarat'', PStr ''3547'')],
                                    PDict [(''gujarat'', PStr ''0'')]]),
               (''total'', PInt 2)])\<close>

definition gujarat_text_reply :: http_result where
  \<open>gujarat_text_reply =
     json_reply ''{"records": [{"gujarat": "3547"}, {"gujarat": "abc"}]}''
       (PDict [(''records'', PList [PDict [(''gujarat'', PStr ''3547'')],
                                    PDict [(''gujarat'', PStr ''abc'')]])])\<close>

definition offshore_text_reply :: http_result where
  \<open>offshore_text_reply =
     json_reply ''{"records": [{"offshore": "abc"}]}''
       (PDict [(''records'', PList [PDict [(''offshore'', PStr ''abc'')]])])\<close>

definition offshore_reply :: http_result where
  \<open>offshore_reply =
     json_reply ''{"records": [{"offshore": "12"}, {"status": "x"}, {"offshore": 0}]}''
       (PDict [(''records'', PList [PDict [(''offshore'', PStr ''12'')],
                                    PDict [(''status'', PStr ''x'')],
                                    PDict [(''offshore'', PInt 0)]])])\<close>

definition malformed_xml_reply :: http_result where
  "malformed_xml_reply =
     Response \<lparr>body_text = ''<a>'',
               json = Inl ''Expecting value: line 1 column 1 (char 0)'',
               xml_tree = Inl ''no element found: line 1, column 3''\<rparr>"

definition csv_reply :: http_result where
  "csv_reply =
     Response \<lparr>body_text = ''status,gujarat,offshore'',
               json = Inl ''Expecting value: line 1 column 1 (char 0)'',
               xml_tree = Inl ''syntax error: line 1, column 0''\<rparr>"

definition three_ids :: "pyval list" where
  "three_ids = [PDict [(''id'', PInt 1)], PDict [(''id'', PInt 2)], PDict [(''id'', PInt 3)]]"

definition oversize_source :: "nat \<Rightarrow> request \<Rightarrow> http_result" where
  \<open>oversize_source k req =
     (if k = 0
      then json_reply ''{"result": {"records": [{"id": 1}, {"id": 2}, {"id": 3}]}}''
             (PDict [(''result'', PDict [(''records'', PList three_ids)])])
      else json_reply ''{"result": {"records": []}}''
             (PDict [(''result'', PDict [(''records'', PList [])])]))\<close>

definition failing_source :: "pyval list \<Rightarrow> nat \<Rightarrow> request \<Rightarrow> http_result" where
  "failing_source records k req =
     (if k = 0 then paged_source [] records req else RequestException ''Read timed out'')"

section \<open>Notions the properties are stated with\<close>

text \<open>The requests among the events of a call, in the order they were sent.\<close>

fun sent :: "event list \<Rightarrow> request list" where
  "sent [] = []"
| "sent (HttpGet r # es) = r # sent es"
| "sent (e # es) = sent es"

text \<open>
  A record is coercible when \<^verbatim>\<open>float(record.get(field, 0))\<close> returns, and passes a test
  when the float it returns satisfies the test.
\<close>

definition coercible :: "runtime \<Rightarrow> string \<Rightarrow> pyval \<Rightarrow> bool" where
  "coercible rt field record =
     (case coerce rt record field of Inl e \<Rightarrow> False | Inr x \<Rightarrow> True)"

definition passes :: "(pyfloat \<Rightarrow> bool) \<Rightarrow> runtime \<Rightarrow> string \<Rightarrow> pyval \<Rightarrow> bool" where
  "passes test rt field record =
     (case coerce rt record field of Inl e \<Rightarrow> False | Inr x \<Rightarrow> test x)"

text \<open>
  Pagination. \<open>within_limit\<close>: no pass appended more records than it asked for.
  \<open>on_pace\<close>: pass \<open>i\<close> asked for offset \<open>i * batch_size\<close>, never beyond the number of
  records retrieved by then, and at exactly that number when every pass stayed within
  the limit. \<open>loop_inv\<close> relates the variables of the loop to the passes made so far.
\<close>

definition within_limit :: "int \<Rightarrow> iteration list \<Rightarrow> bool" where
  "within_limit batch_size its = list_all (\<lambda>it. int (page_size it) \<le> batch_size) its"

definition on_pace :: "int \<Rightarrow> iteration list \<Rightarrow> bool" where
  "on_pace batch_size its \<longleftrightarrow>
     map at_offset its = map (\<lambda>i. int i * batch_size) [0..<length its]
     \<and> list_all (\<lambda>it. at_offset it \<le> int (fetched_before it)) its
     \<and> (within_limit batch_size its \<longrightarrow>
          list_all (\<lambda>it. at_offset it = int (fetched_before it)) its)"

definition loop_inv ::
  "client \<Rightarrow> string \<Rightarrow> int \<Rightarrow> int \<Rightarrow> pyval list \<Rightarrow> event list \<Rightarrow> iteration list \<Rightarrow> bool" where
  "loop_inv c format_type batch_size offset all_records ev its \<longleftrightarrow>
     offset = int (length its) * batch_size
     \<and> offset \<le> int (length all_records)
     \<and> (within_limit batch_size its \<longrightarrow> int (length all_records) = offset)
     \<and> on_pace batch_size its
     \<and> sent ev = map (\<lambda>it. build_request c format_type (at_offset it) batch_size None) its"

section \<open>Facts about the Python operations\<close>

lemma and_then_Inr: "and_then (Inr x) f = f x"
  by (simp add: and_then_def)

lemma and_then_Inl: "and_then (Inl e) f = Inl e"
  by (simp add: and_then_def)

lemma py_len_iter: "py_iter v = Inr xs \<Longrightarrow> py_len v = Inr (length xs)"
  by (induction v rule: py_iter.induct) auto

lemma sent_append: "sent (xs @ ys) = sent xs @ sent ys"
  by (induction xs rule: sent.induct) auto

lemma map_of_state_filters:
  "k \<in> set (map fst state_filters) \<Longrightarrow> \<exists>field. map_of state_filters k = Some field"
  by (metis domD dom_map_of_conv_image_fst set_map)

section \<open>Coercion\<close>

text \<open>
  The dashboard's \<open>safe_int\<close> never raises: text that does not parse becomes 0, text
  that parses becomes the parsed float, and any other value is returned as it is.
\<close>

lemma safe_int_total:
  "safe_int rt v =
     (case v of
        PStr s \<Rightarrow> (case float_str rt s of None \<Rightarrow> PInt 0 | Some f \<Rightarrow> PFloat f)
      | _ \<Rightarrow> v)"
  by (cases v) (auto split: option.splits)

text \<open>
  The coercion of the filters on a record that is a dict: an absent field is 0.0, a
  numeric field is converted, and text goes to the parser, whose failure is raised.
\<close>

lemma coerce_absent:
  "map_of d field = None \<Longrightarrow> coerce rt (PDict d) field = Inr (Fin 0)"
  by (simp add: coerce_def and_then_def float_int_def)

lemma coerce_text:
  "map_of d field = Some (PStr s) \<Longrightarrow>
   coerce rt (PDict d) field =
     (case float_str rt s of None \<Rightarrow> Inl ValueError | Some f \<Rightarrow> Inr f)"
  by (simp add: coerce_def and_then_def)

lemma coerce_float:
  "map_of d field = Some (PFloat f) \<Longrightarrow> coerce rt (PDict d) field = Inr f"
  by (simp add: coerce_def and_then_def)

text \<open>
  Claim C1. The claim says that the coercion of the filter engine never raises and
  yields 0 on text that does not parse. On the record \<^verbatim>\<open>{"gujarat": "abc"}\<close> the
  coercion of \<open>filter_by_state\<close> and \<open>filter_by_offshore\<close> raises \<^verbatim>\<open>ValueError\<close>, where
  \<open>safe_int\<close> of the dashboard returns 0 on the same text.
\<close>

theorem coerce_raises_on_text:
  "coerce example_runtime (PDict [(''gujarat'', PStr ''abc'')]) ''gujarat'' = Inl ValueError
   \<and> keep_records gt_zero example_runtime ''gujarat'' [PDict [(''gujarat'', PStr ''abc'')]]
       = Inl ValueError
   \<and> safe_int example_runtime (PStr ''abc'') = PInt 0"
  by (simp add: coerce_def and_then_def example_runtime_def digits_float_def)

section \<open>Decoding\<close>

text \<open>
  A body that is not JSON comes back as an error value that embeds the parser's
  message, and the first 200 characters of the body are printed.
\<close>

lemma get_wells_data_json_decode_error:
  assumes "src (build_request c ''json'' offset limit filters) = Response r"
      and "json r = Inl msg"
  shows "get_wells_data c src ''json'' offset limit filters =
           (Inr (PDict [(''error'', PStr (''JSON decode error: '' @ msg))]),
            [HttpGet (build_request c ''json'' offset limit filters),
             PrintJSONError msg, PrintResponseText (take 200 (body_text r))])"
  using assms by (simp add: get_wells_data_def)

lemma get_wells_data_request_error:
  assumes "src (build_request c format_type offset limit filters) = RequestException msg"
  shows "get_wells_data c src format_type offset limit filters =
           (Inr (PDict [(''error'', PStr msg)]),
            [HttpGet (build_request c format_type offset limit filters),
             PrintRequestError msg])"
  using assms by (simp add: get_wells_data_def)

lemma get_wells_data_xml_malformed:
  assumes "src (build_request c ''xml'' offset limit filters) = Response r"
      and "xml_tree r = Inl msg"
  shows "get_wells_data c src ''xml'' offset limit filters =
           (Inl (ParseError msg), [HttpGet (build_request c ''xml'' offset limit filters)])"
  using assms by (simp add: get_wells_data_def)

text \<open>
  Claim C5. The claim says that a malformed XML body yields a returned failure value.
  On the body \<^verbatim>\<open><a>\<close> with format \<^verbatim>\<open>xml\<close> the parser's exception leaves
  \<open>get_wells_data\<close>; with format \<^verbatim>\<open>json\<close> the same body yields the error value.
\<close>

theorem get_wells_data_xml_error_escapes:
  "get_wells_data default_client (\<lambda>req. malformed_xml_reply) ''xml'' 0 10 None =
     (Inl (ParseError ''no element found: line 1, column 3''),
      [HttpGet (build_request default_client ''xml'' 0 10 None)])
   \<and> fst (get_wells_data default_client (\<lambda>req. malformed_xml_reply) ''json'' 0 10 None) =
       Inr (PDict [(''error'',
              PStr ''JSON decode error: Expecting value: line 1 column 1 (char 0)'')])"
  by (simp add: get_wells_data_def malformed_xml_reply_def)

section \<open>The filters\<close>

text \<open>
  The comprehension keeps, in order, the records that pass the test; it returns when
  every record is coercible and raises otherwise.
\<close>

lemma keep_records_filter:
  "list_all (coercible rt field) rs \<Longrightarrow>
   keep_records test rt field rs = Inr (filter (passes test rt field) rs)"
  by (induction rs) (auto simp: coercible_def passes_def split: sum.splits)

lemma keep_records_raises:
  "\<not> list_all (coercible rt field) rs \<Longrightarrow> \<exists>e. keep_records test rt field rs = Inl e"
  by (induction rs) (auto simp: coercible_def split: sum.splits)

lemma keep_records_kept:
  "keep_records test rt field rs = Inr kept \<Longrightarrow> kept = filter (passes test rt field) rs"
  by (induction rs arbitrary: kept) (auto simp: passes_def split: sum.splits if_splits)

text \<open>
  On a fetched mapping without an \<^verbatim>\<open>"error"\<close> key whose \<^verbatim>\<open>"records"\<close> is a list of
  coercible records, both filters return the mapping with the records that pass, in
  their order, and with their number.
\<close>

lemma filter_fetched_json:
  assumes "''error'' \<notin> set (map fst d)"
      and "map_of d ''records'' = Some (PList rs)"
      and "list_all (coercible rt field) rs"
  shows "filter_fetched test rt field ''json'' (Inr (PDict d), ev) =
           (Inr (PDict (AList.update ''count''
                          (PInt (int (length (filter (passes test rt field) rs))))
                          (AList.update ''records''
                             (PList (filter (passes test rt field) rs)) d))), ev)"
  using assms
  by (simp add: filter_fetched_def filter_json_def and_then_def keep_records_filter)

lemma filter_by_state_json:
  assumes "map_of state_filters (str_lower rt state_name) = Some field"
      and "get_wells_data c src ''json'' 0 1000 None = (Inr (PDict d), ev)"
      and "''error'' \<notin> set (map fst d)"
      and "map_of d ''records'' = Some (PList rs)"
      and "list_all (coercible rt field) rs"
  shows "filter_by_state c rt src state_name ''json'' =
           (Inr (PDict (AList.update ''count''
                          (PInt (int (length (filter (passes gt_zero rt field) rs))))
                          (AList.update ''records''
                             (PList (filter (passes gt_zero rt field) rs)) d))), ev)"
  using assms by (simp add: filter_by_state_def filter_fetched_json)

lemma filter_by_offshore_json:
  assumes "get_wells_data c src ''json'' 0 1000 None = (Inr (PDict d), ev)"
      and "''error'' \<notin> set (map fst d)"
      and "map_of d ''records'' = Some (PList rs)"
      and "list_all (coercible rt ''offshore'') rs"
  shows "filter_by_offshore c rt src offshore ''json'' =
           (Inr (PDict (AList.update ''count''
                  (PInt (int (length (filter
                     (passes (if offshore then gt_zero else eq_zero) rt ''offshore'') rs))))
                  (AList.update ''records''
                     (PList (filter
                        (passes (if offshore then gt_zero else eq_zero) rt ''offshore'') rs))
                     d))), ev)"
  using assms by (simp add: filter_by_offshore_def filter_fetched_json)

text \<open>
  The example of the specification: of one record with \<^verbatim>\<open>gujarat: "3547"\<close> and one
  with \<^verbatim>\<open>gujarat: "0"\<close>, the first is kept. A record without an \<^verbatim>\<open>offshore\<close> field is
  onshore.
\<close>

lemma filter_by_state_gujarat_example:
  "filter_by_state default_client example_runtime (\<lambda>req. gujarat_reply) ''gujarat'' ''json'' =
     (Inr (PDict [(''records'', PList [PDict [(''gujarat'', PStr ''3547'')]]),
                  (''total'', PInt 2), (''count'', PInt 1)]),
      [HttpGet (build_request default_client ''json'' 0 1000 None)])"
  by (simp add: filter_by_state_def state_filters_def example_runtime_def ascii_lower_def
        filter_fetched_def get_wells_data_def gujarat_reply_def json_reply_def
        filter_json_def and_then_def coerce_def digits_float_def)

lemma filter_by_offshore_example:
  "fst (filter_by_offshore default_client example_runtime (\<lambda>req. offshore_reply) True ''json'') =
     Inr (PDict [(''records'', PList [PDict [(''offshore'', PStr ''12'')]]),
                 (''count'', PInt 1)])
   \<and> fst (filter_by_offshore default_client example_runtime (\<lambda>req. offshore_reply) False ''json'') =
     Inr (PDict [(''records'', PList [PDict [(''status'', PStr ''x'')],
                                      PDict [(''offshore'', PInt 0)]]),
                 (''count'', PInt 2)])"
  by (simp add: filter_by_offshore_def example_runtime_def
        filter_fetched_def get_wells_data_def offshore_reply_def json_reply_def
        filter_json_def and_then_def coerce_def digits_float_def float_int_def)

text \<open>
  Claim C6. The claim says that \<open>filter_by_state\<close> returns, for every fetched record
  list, the records whose field coerces to a number above 0, the coercion being 0 on text
  that does not parse. On the records \<^verbatim>\<open>[{"gujarat": "3547"}, {"gujarat": "abc"}]\<close> the
  call raises \<^verbatim>\<open>ValueError\<close> and returns no record.
\<close>

theorem filter_by_state_raises_on_text:
  "filter_by_state default_client example_runtime (\<lambda>req. gujarat_text_reply)
     ''gujarat'' ''json'' =
     (Inl ValueError, [HttpGet (build_request default_client ''json'' 0 1000 None)])"
  by (simp add: filter_by_state_def state_filters_def example_runtime_def ascii_lower_def
        filter_fetched_def get_wells_data_def gujarat_text_reply_def json_reply_def
        filter_json_def and_then_def coerce_def digits_float_def)

text \<open>
  Claim C7. The claim says that \<open>filter_by_offshore\<close> returns the records whose
  \<^verbatim>\<open>offshore\<close> field coerces to a number above 0, or to exactly 0 for onshore, the
  coercion being 0 on text that does not parse. On the records
  \<^verbatim>\<open>[{"offshore": "abc"}]\<close> the call raises \<^verbatim>\<open>ValueError\<close> for both values of the
  flag.
\<close>

theorem filter_by_offshore_raises_on_text:
  "filter_by_offshore default_client example_runtime (\<lambda>req. offshore_text_reply)
     False ''json'' =
     (Inl ValueError, [HttpGet (build_request default_client ''json'' 0 1000 None)])
   \<and> filter_by_offshore default_client example_runtime (\<lambda>req. offshore_text_reply)
     True ''json'' =
     (Inl ValueError, [HttpGet (build_request default_client ''json'' 0 1000 None)])"
  by (simp add: filter_by_offshore_def example_runtime_def
        filter_fetched_def get_wells_data_def offshore_text_reply_def json_reply_def
        filter_json_def and_then_def coerce_def digits_float_def)

text \<open>
  Claim C8. For a state name whose lower-case form is not one of the ten keys,
  \<open>filter_by_state\<close> returns the error value whose message lists the ten keys, and
  the call has no event: it sends no request, whatever the source and the format.
\<close>

theorem filter_by_state_unknown_state:
  assumes "str_lower rt state_name \<notin> set (map fst state_filters)"
  shows "filter_by_state c rt src state_name format_type =
     (Inr (PDict [(''error'', PStr (''Invalid state name. Available states: '' @
        repr_keys [''gujarat'', ''rajasthan'', ''assam'', ''tripura'', ''andhra_pradesh'',
          ''tamilnadu'', ''west_bengal'', ''jharkhand'', ''madhya_pradesh'',
          ''other_states'']))]), [])"
proof -
  from assms have "map_of state_filters (str_lower rt state_name) = None"
    by (simp add: map_of_eq_None_iff)
  then show ?thesis
    by (simp add: filter_by_state_def) (simp add: state_filters_def)
qed

theorem filter_by_state_unknown_state_witness:
  "str_lower example_runtime ''Atlantis'' \<notin> set (map fst state_filters)
   \<and> filter_by_state default_client example_runtime (\<lambda>req. gujarat_reply)
        ''Atlantis'' ''json'' =
       (Inr (PDict [(''error'', PStr (''Invalid state name. Available states: '' @
          repr_keys [''gujarat'', ''rajasthan'', ''assam'', ''tripura'', ''andhra_pradesh'',
            ''tamilnadu'', ''west_bengal'', ''jharkhand'', ''madhya_pradesh'',
            ''other_states'']))]), [])"
proof -
  have h: "str_lower example_runtime ''Atlantis'' \<notin> set (map fst state_filters)"
    by code_simp
  show ?thesis
    using h filter_by_state_unknown_state [OF h] by simp
qed

text \<open>
  The message of that error value, written out.
\<close>

lemma unknown_state_message:
  \<open>''Invalid state name. Available states: '' @ repr_keys (map fst state_filters) =
     ''Invalid state name. Available states: ['gujarat', 'rajasthan', 'assam', 'tripura', 'andhra_pradesh', 'tamilnadu', 'west_bengal', 'jharkhand', 'madhya_pradesh', 'other_states']''\<close>
  by (simp add: repr_keys_def state_filters_def)

text \<open>
  Outside JSON, what \<open>get_wells_data\<close> returns is an element, a string or the error
  value of a failed request, none of which the filters change.
\<close>

lemma filter_fetched_not_json:
  assumes "format_type \<noteq> ''json''"
  shows "filter_fetched test rt field format_type
           (get_wells_data c src format_type offset limit filters)
         = get_wells_data c src format_type offset limit filters"
  using assms
  by (auto simp: filter_fetched_def get_wells_data_def Let_def
           split: http_result.splits sum.splits bool.splits)

text \<open>
  Claim C9. For a format other than \<^verbatim>\<open>json\<close>, \<open>filter_by_state\<close> with a recognized
  key and \<open>filter_by_offshore\<close> return what the fetch of up to 1000 records returned,
  unchanged, with the events of that fetch.
\<close>

theorem filters_identity_outside_json:
  assumes "format_type \<noteq> ''json''"
  shows "(str_lower rt state_name \<in> set (map fst state_filters) \<longrightarrow>
          filter_by_state c rt src state_name format_type
            = get_wells_data c src format_type 0 1000 None)
       \<and> filter_by_offshore c rt src offshore format_type
            = get_wells_data c src format_type 0 1000 None"
proof -
  have "filter_by_state c rt src state_name format_type
            = get_wells_data c src format_type 0 1000 None"
    if "str_lower rt state_name \<in> set (map fst state_filters)"
  proof -
    from that obtain field where "map_of state_filters (str_lower rt state_name) = Some field"
      using map_of_state_filters by blast
    then show ?thesis
      by (simp add: filter_by_state_def filter_fetched_not_json[OF assms])
  qed
  then show ?thesis
    by (simp add: filter_by_offshore_def filter_fetched_not_json[OF assms])
qed

theorem filters_identity_outside_json_witness:
  "''csv'' \<noteq> ''json''
   \<and> str_lower example_runtime ''Gujarat'' \<in> set (map fst state_filters)
   \<and> filter_by_state default_client example_runtime (\<lambda>req. csv_reply) ''Gujarat'' ''csv''
       = (Inr (PStr ''status,gujarat,offshore''),
          [HttpGet (build_request default_client ''csv'' 0 1000 None)])
   \<and> filter_by_offshore default_client example_runtime (\<lambda>req. csv_reply) True ''csv''
       = (Inr (PStr ''status,gujarat,offshore''),
          [HttpGet (build_request default_client ''csv'' 0 1000 None)])"
proof -
  have h: "''csv'' \<noteq> ''json''" by simp
  have k: "str_lower example_runtime ''Gujarat'' \<in> set (map fst state_filters)"
    by code_simp
  have g: "get_wells_data default_client (\<lambda>req. csv_reply) ''csv'' 0 1000 None
       = (Inr (PStr ''status,gujarat,offshore''),
          [HttpGet (build_request default_client ''csv'' 0 1000 None)])"
    by (simp add: get_wells_data_def csv_reply_def)
  show ?thesis
    using h k g
      filters_identity_outside_json [OF h, of example_runtime "''Gujarat''"
        default_client "\<lambda>req. csv_reply" True]
    by simp
qed



section \<open>Pagination\<close>

text \<open>
  One pass of the loop sends exactly one request, for \<open>batch_size\<close> records at the
  current offset; it only ever appends to the records; and when the loop goes round
  again, the offset has advanced by \<open>batch_size\<close> and the pass appended at least
  \<open>batch_size\<close> records.
\<close>

lemma sent_get_wells_data:
  "sent (snd (get_wells_data c src format_type offset limit filters))
     = [build_request c format_type offset limit filters]"
  by (auto simp: get_wells_data_def Let_def split: http_result.splits sum.splits)

lemma loop_body_sent:
  assumes "loop_body c src format_type batch_size offset all_records = (ct, offset', all', ev')"
  shows "sent ev' = [build_request c format_type offset batch_size None]"
proof -
  obtain r ev where g: "get_wells_data c src format_type offset batch_size None = (r, ev)"
    by (cases "get_wells_data c src format_type offset batch_size None")
  then have s: "sent ev = [build_request c format_type offset batch_size None]"
    using sent_get_wells_data[of c src format_type offset batch_size None] by simp
  from assms g have "ev' = ev \<or> (\<exists>v. ev' = ev @ [PrintErrorAtOffset offset v])"
    by (auto simp: loop_body_def split: sum.splits bool.splits if_splits)
  with s show ?thesis by (auto simp: sent_append)
qed

lemma loop_body_extends:
  assumes "loop_body c src format_type batch_size offset all_records = (ct, offset', all', ev')"
  shows "\<exists>items. all' = all_records @ items"
  using assms
  by (auto simp: loop_body_def split: prod.splits sum.splits bool.splits if_splits)

lemma loop_body_continue:
  assumes "loop_body c src format_type batch_size offset all_records
             = (Continue, offset', all', ev')"
  shows "offset' = offset + batch_size
       \<and> batch_size \<le> int (length all' - length all_records)"
  using assms
  by (auto simp: loop_body_def dest!: py_len_iter
           split: prod.splits sum.splits bool.splits if_splits)

lemma on_pace_snoc:
  assumes "loop_inv c format_type batch_size offset all_records ev its"
  shows "on_pace batch_size
           (its @ [\<lparr>at_offset = offset, fetched_before = length all_records, page_size = p\<rparr>])"
  using assms by (auto simp: loop_inv_def on_pace_def within_limit_def)

lemma sent_snoc:
  assumes "loop_inv c format_type batch_size offset all_records ev its"
      and "sent ev' = [build_request c format_type offset batch_size None]"
  shows "sent (ev @ ev') =
           map (\<lambda>it. build_request c format_type (at_offset it) batch_size None)
             (its @ [\<lparr>at_offset = offset, fetched_before = length all_records,
                       page_size = p\<rparr>])"
  using assms by (simp add: loop_inv_def sent_append)

lemma loop_inv_init: "loop_inv c format_type batch_size 0 [] [] []"
  by (simp add: loop_inv_def on_pace_def within_limit_def)

lemma loop_inv_step:
  assumes inv: "loop_inv c format_type batch_size offset all_records ev its"
      and body: "loop_body c src format_type batch_size offset all_records
                   = (Continue, offset', all', ev')"
  shows "loop_inv c format_type batch_size offset' all' (ev @ ev')
           (its @ [\<lparr>at_offset = offset, fetched_before = length all_records,
                     page_size = length all' - length all_records\<rparr>])"
proof -
  let ?its = "its @ [\<lparr>at_offset = offset, fetched_before = length all_records,
                       page_size = length all' - length all_records\<rparr>]"
  from loop_body_continue[OF body]
  have o: "offset' = offset + batch_size"
    and big: "batch_size \<le> int (length all' - length all_records)" by auto
  from loop_body_extends[OF body] obtain items where a: "all' = all_records @ items" by blast
  have s: "sent ev' = [build_request c format_type offset batch_size None]"
    by (rule loop_body_sent[OF body])
  have "offset' = int (length ?its) * batch_size"
    using inv o by (simp add: loop_inv_def algebra_simps)
  moreover have "offset' \<le> int (length all')"
    using inv o big a by (simp add: loop_inv_def)
  moreover have "within_limit batch_size ?its \<longrightarrow> int (length all') = offset'"
    using inv o big a by (auto simp: loop_inv_def within_limit_def)
  ultimately show ?thesis
    unfolding loop_inv_def[of c format_type batch_size offset' all']
    using on_pace_snoc[OF inv] sent_snoc[OF inv s] by blast
qed

lemma fetch_loop_inv:
  assumes "loop_inv c format_type batch_size offset all_records ev its"
  shows "on_pace batch_size
           (iterations (fetch_loop fuel c src format_type batch_size k offset all_records ev its))
       \<and> sent (trace (fetch_loop fuel c src format_type batch_size k offset all_records ev its))
           = map (\<lambda>it. build_request c format_type (at_offset it) batch_size None)
               (iterations
                  (fetch_loop fuel c src format_type batch_size k offset all_records ev its))"
  using assms
proof (induction fuel arbitrary: k offset all_records ev its)
  case 0
  then show ?case by (simp add: loop_inv_def)
next
  case (Suc fuel)
  obtain ct offset' all' ev' where
    body: "loop_body c (src k) format_type batch_size offset all_records
             = (ct, offset', all', ev')"
    by (cases "loop_body c (src k) format_type batch_size offset all_records") auto
  note inv = Suc.prems
  have s: "sent ev' = [build_request c format_type offset batch_size None]"
    by (rule loop_body_sent[OF body])
  show ?case
  proof (cases ct)
    case Continue
    with body inv have "loop_inv c format_type batch_size offset' all' (ev @ ev')
           (its @ [\<lparr>at_offset = offset, fetched_before = length all_records,
                     page_size = length all' - length all_records\<rparr>])"
      using loop_inv_step by blast
    from Suc.IH[OF this] show ?thesis
      using body Continue by (simp add: Let_def)
  next
    case Break
    then show ?thesis
      using body on_pace_snoc[OF inv] sent_snoc[OF inv s] by (simp add: Let_def)
  next
    case (Raise e)
    then show ?thesis
      using body on_pace_snoc[OF inv] sent_snoc[OF inv s] by (simp add: Let_def)
  qed
qed

lemma multiples_increasing:
  assumes "0 < batch_size"
      and "map at_offset its = map (\<lambda>i. int i * batch_size) [0..<length its]"
  shows "sorted_wrt (<) (map at_offset its)"
proof -
  have "sorted_wrt (<) (map (\<lambda>i. int i * batch_size) [0..<n])" for n
    using assms(1) by (simp add: sorted_wrt_map sorted_wrt_iff_nth_less)
  with assms(2) show ?thesis by simp
qed

text \<open>
  Claim C2, as the claim states it, fails when the source answers with more records
  than the pass asked for: with a batch size of 2 and a first page of three records,
  the second pass asks for offset 2 when 3 records have been retrieved.
\<close>

theorem offset_not_retrieved_count_counterexample:
  "iterations (get_all_wells_data 2 default_client oversize_source ''json'' 2) =
     [\<lparr>at_offset = 0, fetched_before = 0, page_size = 3\<rparr>,
      \<lparr>at_offset = 2, fetched_before = 3, page_size = 0\<rparr>]
   \<and> at_offset (iterations (get_all_wells_data 2 default_client oversize_source ''json'' 2) ! 1)
       \<noteq> int (fetched_before
                (iterations (get_all_wells_data 2 default_client oversize_source ''json'' 2) ! 1))"
  by (simp add: get_all_wells_data_def numeral_2_eq_2 loop_body_def get_wells_data_def
        oversize_source_def three_ids_def json_reply_def and_then_def Let_def)

text \<open>
  Claim C2, amended. For a positive batch size, any source and any number of passes,
  pass \<open>i\<close> requests \<open>batch_size\<close> records at offset \<open>i * batch_size\<close>: the offsets are
  strictly increasing, the requests sent are exactly these, no offset is beyond the
  number of records retrieved so far, and the offset equals that number whenever no
  pass received more than \<open>batch_size\<close> records.
\<close>

theorem offsets_advance_by_batch_size:
  assumes "0 < batch_size"
  shows "map at_offset (iterations (get_all_wells_data fuel c src format_type batch_size))
           = map (\<lambda>i. int i * batch_size)
               [0..<length (iterations (get_all_wells_data fuel c src format_type batch_size))]
       \<and> sorted_wrt (<)
           (map at_offset (iterations (get_all_wells_data fuel c src format_type batch_size)))
       \<and> sent (trace (get_all_wells_data fuel c src format_type batch_size))
           = map (\<lambda>it. build_request c format_type (at_offset it) batch_size None)
               (iterations (get_all_wells_data fuel c src format_type batch_size))
       \<and> (\<forall>it \<in> set (iterations (get_all_wells_data fuel c src format_type batch_size)).
             at_offset it \<le> int (fetched_before it))
       \<and> ((\<forall>it \<in> set (iterations (get_all_wells_data fuel c src format_type batch_size)).
              int (page_size it) \<le> batch_size) \<longrightarrow>
           (\<forall>it \<in> set (iterations (get_all_wells_data fuel c src format_type batch_size)).
              at_offset it = int (fetched_before it)))"
proof -
  let ?run = "get_all_wells_data fuel c src format_type batch_size"
  have run: "?run = fetch_loop fuel c src format_type batch_size 0 0 [] [] []"
    by (simp add: get_all_wells_data_def)
  have inv: "on_pace batch_size (iterations ?run)"
    and req: "sent (trace ?run)
           = map (\<lambda>it. build_request c format_type (at_offset it) batch_size None)
               (iterations ?run)"
    unfolding run
    using fetch_loop_inv[OF loop_inv_init[of c format_type batch_size],
            where fuel=fuel and src=src and k=0]
    by blast+
  from inv have offs: "map at_offset (iterations ?run)
           = map (\<lambda>i. int i * batch_size) [0..<length (iterations ?run)]"
    by (simp add: on_pace_def)
  from multiples_increasing[OF assms offs]
  have incr: "sorted_wrt (<) (map at_offset (iterations ?run))" .
  from inv have le: "\<forall>it \<in> set (iterations ?run). at_offset it \<le> int (fetched_before it)"
    by (simp add: on_pace_def list_all_iff)
  from inv have eq: "(\<forall>it \<in> set (iterations ?run). int (page_size it) \<le> batch_size) \<longrightarrow>
           (\<forall>it \<in> set (iterations ?run). at_offset it = int (fetched_before it))"
    by (simp add: on_pace_def within_limit_def list_all_iff)
  from offs incr req le eq show ?thesis by blast
qed

theorem offsets_advance_by_batch_size_witness:
  "(0::int) < 2
   \<and> iterations (get_all_wells_data 5 default_client (\<lambda>k. paged_source [] three_ids) ''json'' 2)
       = [\<lparr>at_offset = 0, fetched_before = 0, page_size = 2\<rparr>,
          \<lparr>at_offset = 2, fetched_before = 2, page_size = 1\<rparr>]
   \<and> sent (trace
         (get_all_wells_data 5 default_client (\<lambda>k. paged_source [] three_ids) ''json'' 2))
       = [build_request default_client ''json'' 0 2 None,
          build_request default_client ''json'' 2 2 None]"
proof -
  have h: "(0::int) < 2" by simp
  have its: "iterations
      (get_all_wells_data 5 default_client (\<lambda>k. paged_source [] three_ids) ''json'' 2)
       = [\<lparr>at_offset = 0, fetched_before = 0, page_size = 2\<rparr>,
          \<lparr>at_offset = 2, fetched_before = 2, page_size = 1\<rparr>]"
    by (simp add: get_all_wells_data_def eval_nat_numeral loop_body_def get_wells_data_def
          paged_source_def build_request_def build_params_def three_ids_def json_reply_def
          and_then_def Let_def)
  show ?thesis
    using h its
      offsets_advance_by_batch_size [OF h, of 5 default_client
        "\<lambda>k. paged_source [] three_ids" "''json''"]
    by simp
qed

text \<open>
  The loop over a source that holds a list of records.
\<close>

lemma params_offset_limit:
  "map_of (params (build_request c format_type offset limit None)) ''offset''
     = Some (PInt offset)"
  "map_of (params (build_request c format_type offset limit None)) ''limit''
     = Some (PInt limit)"
  by (simp_all add: build_request_def build_params_def)

lemma get_wells_data_paged:
  "get_wells_data c (paged_source body records) ''json'' offset limit None =
     (Inr (PDict [(''result'', PDict [(''records'',
         PList (take (nat limit) (drop (nat offset) records)))])]),
      [HttpGet (build_request c ''json'' offset limit None)])"
  by (simp add: get_wells_data_def paged_source_def params_offset_limit json_reply_def)

lemma loop_body_paged:
  "loop_body c (paged_source body records) ''json'' batch_size offset all_records =
     (let page = take (nat batch_size) (drop (nat offset) records);
          ev = [HttpGet (build_request c ''json'' offset batch_size None)]
      in if page = [] then (Break, offset, all_records, ev)
         else if int (length page) < batch_size
              then (Break, offset + batch_size, all_records @ page, ev)
              else (Continue, offset + batch_size, all_records @ page, ev))"
  by (simp add: loop_body_def get_wells_data_paged and_then_def Let_def)

lemma three_pages:
  assumes "length (records :: 'a list) = 250"
  shows "take 100 records @ take 100 (drop 100 records) @ take 100 (drop 200 records)
           = records"
proof -
  have "take 100 (drop 200 records) = drop 200 records"
    using assms by simp
  moreover have "take 100 (drop 100 records) @ drop 200 records = drop 100 records"
    using append_take_drop_id[of 100 "drop 100 records"] by simp
  ultimately show ?thesis by simp
qed

text \<open>
  Claim C3. With a batch size of 100, against a JSON source that holds 250 records, the
  loop ends within three passes: it sends requests at offsets 0, 100 and 200 and no
  other, appends pages of 100, 100 and 50 records, and returns the 250 records in the
  source's order.
\<close>

theorem get_all_250_records:
  assumes len: "length records = 250" and fuel: "3 \<le> fuel"
  shows "get_all_wells_data fuel c (\<lambda>k. paged_source body records) ''json'' 100 =
     \<lparr>outcome = Some (Inr records),
      trace = [HttpGet (build_request c ''json'' 0 100 None),
               HttpGet (build_request c ''json'' 100 100 None),
               HttpGet (build_request c ''json'' 200 100 None)],
      iterations = [\<lparr>at_offset = 0, fetched_before = 0, page_size = 100\<rparr>,
                    \<lparr>at_offset = 100, fetched_before = 100, page_size = 100\<rparr>,
                    \<lparr>at_offset = 200, fetched_before = 200, page_size = 50\<rparr>]\<rparr>"
proof -
  from fuel obtain m where m: "fuel = Suc (Suc (Suc m))"
    by (metis Suc_le_D numeral_3_eq_3 Suc_le_mono)
  have p1: "take 100 records \<noteq> []" "length (take 100 records) = 100"
    using len by auto
  have p2: "take 100 (drop 100 records) \<noteq> []" "length (take 100 (drop 100 records)) = 100"
    using len by auto
  have p3: "take 100 (drop 200 records) \<noteq> []" "length (take 100 (drop 200 records)) = 50"
    using len by auto
  show ?thesis
    unfolding get_all_wells_data_def m
    using p1 p2 p3 three_pages[OF len] len
    by (simp add: loop_body_paged Let_def)
qed

theorem get_all_250_records_witness:
  "length (map (\<lambda>i. PDict [(''id'', PInt (int i))]) [0..<250]) = 250
   \<and> (3::nat) \<le> 3
   \<and> outcome (get_all_wells_data 3 default_client
         (\<lambda>k. paged_source [] (map (\<lambda>i. PDict [(''id'', PInt (int i))]) [0..<250]))
         ''json'' 100)
       = Some (Inr (map (\<lambda>i. PDict [(''id'', PInt (int i))]) [0..<250]))
   \<and> map at_offset (iterations (get_all_wells_data 3 default_client
         (\<lambda>k. paged_source [] (map (\<lambda>i. PDict [(''id'', PInt (int i))]) [0..<250]))
         ''json'' 100))
       = [0, 100, 200]"
proof -
  have len: "length (map (\<lambda>i. PDict [(''id'', PInt (int i))]) [0..<250]) = 250"
    by simp
  have fuel: "(3::nat) \<le> 3" by simp
  show ?thesis
    using len fuel get_all_250_records [OF len fuel, of default_client "[]"]
    by simp
qed

text \<open>
  Claim C4. When the first page comes back as a full page of JSON records and the
  fetch of the second page fails, the loop ends at its second pass: it returns the
  records of the first page, which are not empty, and the failure appears as two
  printed lines, not as an exception.
\<close>

theorem get_all_keeps_first_page_on_failure:
  assumes bs: "0 < batch_size"
      and first: "src 0 (build_request c ''json'' 0 batch_size None) = Response r"
      and decoded: "json r = Inr (PDict d)"
      and noerr: "''error'' \<notin> set (map fst d)"
      and result: "map_of d ''result'' = Some (PDict res)"
      and records: "map_of res ''records'' = Some (PList page)"
      and full: "int (length page) = batch_size"
      and second: "src 1 (build_request c ''json'' batch_size batch_size None)
                     = RequestException msg"
      and fuel: "2 \<le> fuel"
  shows "outcome (get_all_wells_data fuel c src ''json'' batch_size) = Some (Inr page)
       \<and> page \<noteq> []
       \<and> trace (get_all_wells_data fuel c src ''json'' batch_size) =
           [HttpGet (build_request c ''json'' 0 batch_size None),
            HttpGet (build_request c ''json'' batch_size batch_size None),
            PrintRequestError msg,
            PrintErrorAtOffset batch_size (PStr msg)]"
proof -
  from fuel obtain m where m: "fuel = Suc (Suc m)"
    by (metis Suc_le_D numeral_2_eq_2 Suc_le_mono)
  from bs full have ne: "page \<noteq> []" by auto
  have b0: "loop_body c (src 0) ''json'' batch_size 0 [] =
      (Continue, batch_size, page, [HttpGet (build_request c ''json'' 0 batch_size None)])"
    using first decoded noerr result records full ne
    by (simp add: loop_body_def get_wells_data_def and_then_def)
  have b1: "loop_body c (src (Suc 0)) ''json'' batch_size batch_size page =
      (Break, batch_size, page,
       [HttpGet (build_request c ''json'' batch_size batch_size None),
        PrintRequestError msg, PrintErrorAtOffset batch_size (PStr msg)])"
    using second by (simp add: loop_body_def get_wells_data_def)
  show ?thesis
    unfolding get_all_wells_data_def m
    using ne by (simp add: b0 b1 Let_def)
qed

theorem get_all_keeps_first_page_on_failure_witness:
  "outcome (get_all_wells_data 2 default_client (failing_source three_ids) ''json'' 3)
     = Some (Inr three_ids)
   \<and> three_ids \<noteq> []
   \<and> trace (get_all_wells_data 2 default_client (failing_source three_ids) ''json'' 3) =
       [HttpGet (build_request default_client ''json'' 0 3 None),
        HttpGet (build_request default_client ''json'' 3 3 None),
        PrintRequestError ''Read timed out'',
        PrintErrorAtOffset 3 (PStr ''Read timed out'')]"
proof -
  let ?d = "[(''result'', PDict [(''records'', PList three_ids)])]"
  let ?r = "\<lparr>body_text = [], json = Inr (PDict ?d),
             xml_tree = Inl ''not well-formed (invalid token): line 1, column 0''\<rparr>"
  have bs: "(0::int) < 3" by simp
  have first: "failing_source three_ids 0 (build_request default_client ''json'' 0 3 None)
                 = Response ?r"
    by (simp add: failing_source_def paged_source_def params_offset_limit json_reply_def
          three_ids_def)
  have decoded: "json ?r = Inr (PDict ?d)" by simp
  have noerr: "''error'' \<notin> set (map fst ?d)" by simp
  have result: "map_of ?d ''result'' = Some (PDict [(''records'', PList three_ids)])"
    by simp
  have records: "map_of [(''records'', PList three_ids)] ''records'' = Some (PList three_ids)"
    by simp
  have full: "int (length three_ids) = 3" by (simp add: three_ids_def)
  have second: "failing_source three_ids 1 (build_request default_client ''json'' 3 3 None)
                  = RequestException ''Read timed out''"
    by (simp add: failing_source_def)
  have fuel: "(2::nat) \<le> 2" by simp
  show ?thesis
    using get_all_keeps_first_page_on_failure
            [OF bs first decoded noerr result records full second fuel]
    by simp
qed

end
